theory Spec2Isabelle
  imports Complex_Main "HOL-Library.Char_ord" "HOL-Library.List_Lexorder"
begin

section \<open>Numbers of the profiler\<close>

text \<open>
  The profiler (scripts/data_profiler.py) computes with NumPy doubles. A double is modelled
  as an exact real, one of the two infinities, or NaN. Binary rounding error and signed
  zeros are outside the model: every finite value is an exact real. NaN and the infinities
  are kept, because NumPy division by zero returns them instead of raising.
\<close>

datatype npfloat = Fin real | PInf | NInf | NaN

datatype py_error = ZeroDivisionError | ValueError

fun fl_neg :: "npfloat \<Rightarrow> npfloat" where
  "fl_neg (Fin x) = Fin (- x)"
| "fl_neg PInf = NInf"
| "fl_neg NInf = PInf"
| "fl_neg NaN = NaN"

fun fl_add :: "npfloat \<Rightarrow> npfloat \<Rightarrow> npfloat" where
  "fl_add NaN _ = NaN"
| "fl_add _ NaN = NaN"
| "fl_add (Fin x) (Fin y) = Fin (x + y)"
| "fl_add PInf NInf = NaN"
| "fl_add NInf PInf = NaN"
| "fl_add PInf _ = PInf"
| "fl_add NInf _ = NInf"
| "fl_add _ PInf = PInf"
| "fl_add _ NInf = NInf"

definition fl_sub :: "npfloat \<Rightarrow> npfloat \<Rightarrow> npfloat" where
  "fl_sub a b = fl_add a (fl_neg b)"

fun fl_mul :: "npfloat \<Rightarrow> npfloat \<Rightarrow> npfloat" where
  "fl_mul NaN _ = NaN"
| "fl_mul _ NaN = NaN"
| "fl_mul (Fin x) (Fin y) = Fin (x * y)"
| "fl_mul PInf (Fin y) = (if y = 0 then NaN else if 0 < y then PInf else NInf)"
| "fl_mul NInf (Fin y) = (if y = 0 then NaN else if 0 < y then NInf else PInf)"
| "fl_mul (Fin x) PInf = (if x = 0 then NaN else if 0 < x then PInf else NInf)"
| "fl_mul (Fin x) NInf = (if x = 0 then NaN else if 0 < x then NInf else PInf)"
| "fl_mul PInf PInf = PInf"
| "fl_mul NInf NInf = PInf"
| "fl_mul PInf NInf = NInf"
| "fl_mul NInf PInf = NInf"

text \<open>NumPy true division of a double by a double: a zero divisor gives NaN or an
  infinity (with a warning), never an exception.\<close>

fun fl_div :: "npfloat \<Rightarrow> npfloat \<Rightarrow> npfloat" where
  "fl_div NaN _ = NaN"
| "fl_div _ NaN = NaN"
| "fl_div (Fin x) (Fin y) =
     (if y = 0 then (if x = 0 then NaN else if 0 < x then PInf else NInf) else Fin (x / y))"
| "fl_div (Fin x) PInf = Fin 0"
| "fl_div (Fin x) NInf = Fin 0"
| "fl_div PInf (Fin y) = (if 0 \<le> y then PInf else NInf)"
| "fl_div NInf (Fin y) = (if 0 \<le> y then NInf else PInf)"
| "fl_div PInf _ = NaN"
| "fl_div NInf _ = NaN"

text \<open>Comparison of doubles: every comparison with NaN is false.\<close>

fun fl_less :: "npfloat \<Rightarrow> npfloat \<Rightarrow> bool" where
  "fl_less NaN _ = False"
| "fl_less _ NaN = False"
| "fl_less (Fin x) (Fin y) = (x < y)"
| "fl_less _ NInf = False"
| "fl_less PInf _ = False"
| "fl_less NInf _ = True"
| "fl_less _ PInf = True"

definition fl_le :: "npfloat \<Rightarrow> npfloat \<Rightarrow> bool" where
  "fl_le a b = (a \<noteq> NaN \<and> b \<noteq> NaN \<and> (a = b \<or> fl_less a b))"

text \<open>\<^verbatim>\<open>max(a, b)\<close> of Python keeps its first argument unless the second is strictly
  greater, so a NaN in second place is dropped.\<close>

definition py_max :: "npfloat \<Rightarrow> npfloat \<Rightarrow> npfloat" where
  "py_max a b = (if fl_less a b then b else a)"

text \<open>Rounding to the nearest integer, ties to the even one (NumPy's rint).\<close>

definition rint :: "real \<Rightarrow> int" where
  "rint x =
     (let f = \<lfloor>x\<rfloor>; d = x - of_int f
      in if d < 1 / 2 then f else if 1 / 2 < d then f + 1 else if even f then f else f + 1)"

text \<open>\<^verbatim>\<open>round(x, 2)\<close> on a NumPy double: scale by 100, rint, scale back; NaN and the
  infinities are returned as they are.\<close>

fun np_round2 :: "npfloat \<Rightarrow> npfloat" where
  "np_round2 (Fin x) = Fin (of_int (rint (x * 100)) / 100)"
| "np_round2 PInf = PInf"
| "np_round2 NInf = NInf"
| "np_round2 NaN = NaN"

text \<open>A NumPy integer count divided by the Python integer \<^verbatim>\<open>len(df)\<close>: NumPy semantics.\<close>

definition np_true_divide :: "nat \<Rightarrow> nat \<Rightarrow> npfloat" where
  "np_true_divide k n = fl_div (Fin (of_nat k)) (Fin (of_nat n))"

text \<open>Division of two Python integers raises on a zero divisor.\<close>

definition py_truediv :: "int \<Rightarrow> int \<Rightarrow> py_error + npfloat" where
  "py_truediv a b = (if b = 0 then Inl ZeroDivisionError else Inr (Fin (of_int a / of_int b)))"

section \<open>Profiles\<close>

datatype extra_stats =
    NumericStats (mean: npfloat) (median: npfloat) (min_v: npfloat) (max_v: npfloat) (std: npfloat)
  | TextStats (min_length: int) (max_length: int) (empty_strings: int)
  | NoStats

record col_info =
  dtype :: string
  non_null :: nat
  null_n :: nat
  null_percentage :: npfloat
  unique :: nat
  extra :: extra_stats

record duplicates_info =
  total :: nat
  percentage :: npfloat

record profile =
  filename :: string
  rows :: nat
  columns :: nat
  size_mb :: npfloat
  duplicates :: duplicates_info
  columns_info :: "(string \<times> col_info) list"

section \<open>Quality score\<close>

text \<open>\<^verbatim>\<open>generate_quality_score\<close>: start at 100, subtract half of each column's null
  percentage in the order of the dictionary, subtract twice the duplicate percentage,
  and return \<^verbatim>\<open>max(0, score)\<close>.\<close>

definition generate_quality_score :: "profile \<Rightarrow> npfloat" where
  "generate_quality_score p =
     (let score = foldl (\<lambda>s ci. fl_sub s (fl_mul (null_percentage ci) (Fin (1 / 2))))
                    (Fin 100) (map snd (columns_info p));
          score = fl_sub score (fl_mul (percentage (duplicates p)) (Fin 2))
      in py_max (Fin 0) score)"

text \<open>The score as the specification words it: the penalties are summed first and then
  taken off 100.\<close>

definition fl_sum :: "npfloat list \<Rightarrow> npfloat" where
  "fl_sum xs = foldr fl_add xs (Fin 0)"


section \<open>Data frames\<close>

text \<open>
  A pandas DataFrame is an index of \<open>nrows\<close> labels and a list of named columns. A cell is
  \<open>None\<close> when pandas counts it as missing (NaN, None, NA). The data of a column is tagged
  by what pandas' dtype predicates answer for it: \<^verbatim>\<open>is_numeric_dtype\<close>, else
  \<^verbatim>\<open>is_string_dtype\<close>, else neither; \<open>dtype_name\<close> is \<^verbatim>\<open>str(df[col].dtype)\<close>.
\<close>

datatype scalar = NumV real | StrV string | ObjV nat

datatype coldata =
    NumericData "real option list"
  | StringData "string option list"
  | OtherData "scalar option list"

record column =
  dtype_name :: string
  values_of :: coldata

record dataframe =
  nrows :: nat
  cols :: "(string \<times> column) list"

fun cells :: "coldata \<Rightarrow> scalar option list" where
  "cells (NumericData xs) = map (map_option NumV) xs"
| "cells (StringData xs) = map (map_option StrV) xs"
| "cells (OtherData xs) = xs"

text \<open>Column labels are distinct (as \<^verbatim>\<open>read_csv\<close> makes them) and every column has one cell
  per index label.\<close>

definition wf_df :: "dataframe \<Rightarrow> bool" where
  "wf_df df \<longleftrightarrow>
     distinct (map fst (cols df)) \<and>
     list_all (\<lambda>(name, c). length (cells (values_of c)) = nrows df) (cols df)"

fun non_nulls :: "'a option list \<Rightarrow> 'a list" where
  "non_nulls [] = []"
| "non_nulls (None # xs) = non_nulls xs"
| "non_nulls (Some v # xs) = v # non_nulls xs"

text \<open>\<^verbatim>\<open>isna().sum()\<close>, \<^verbatim>\<open>notna().sum()\<close> and \<^verbatim>\<open>nunique()\<close> (which drops missing values).\<close>

definition isna_sum :: "'a option list \<Rightarrow> nat" where
  "isna_sum cs = length (filter (\<lambda>c. c = None) cs)"

definition notna_sum :: "'a option list \<Rightarrow> nat" where
  "notna_sum cs = length (filter (\<lambda>c. c \<noteq> None) cs)"

definition nunique :: "'a option list \<Rightarrow> nat" where
  "nunique cs = length (remdups (non_nulls cs))"

text \<open>The reductions of a numeric Series skip missing values and return NaN when nothing is
  left; the standard deviation is the sample one (\<open>n - 1\<close> in the divisor), NaN below two values.\<close>

definition series_mean :: "real list \<Rightarrow> npfloat" where
  "series_mean vs = (if vs = [] then NaN else Fin (sum_list vs / of_nat (length vs)))"

definition series_median :: "real list \<Rightarrow> npfloat" where
  "series_median vs =
     (if vs = [] then NaN
      else let s = sort vs; n = length vs
           in if odd n then Fin (s ! (n div 2))
              else Fin ((s ! (n div 2 - 1) + s ! (n div 2)) / 2))"

definition series_min :: "real list \<Rightarrow> npfloat" where
  "series_min vs = (case vs of [] \<Rightarrow> NaN | v # rest \<Rightarrow> Fin (fold min rest v))"

definition series_max :: "real list \<Rightarrow> npfloat" where
  "series_max vs = (case vs of [] \<Rightarrow> NaN | v # rest \<Rightarrow> Fin (fold max rest v))"

definition series_std :: "real list \<Rightarrow> npfloat" where
  "series_std vs =
     (let n = length vs
      in if n < 2 then NaN
         else let m = sum_list vs / of_nat n
              in Fin (sqrt (sum_list (map (\<lambda>v. (v - m) ^ 2) vs) / of_nat (n - 1))))"

text \<open>The string branch converts the NaN that \<^verbatim>\<open>str.len().min()\<close> returns on a column without
  values with \<^verbatim>\<open>int(...)\<close>, which raises ValueError. Lengths count the characters of the
  model's strings.\<close>

definition text_stats :: "string option list \<Rightarrow> py_error + extra_stats" where
  "text_stats xs =
     (let lens = map length (non_nulls xs)
      in case lens of
           [] \<Rightarrow> Inl ValueError
         | l # ls \<Rightarrow>
             Inr (TextStats (int (fold min ls l)) (int (fold max ls l))
                    (int (length (filter (\<lambda>n. n = 0) lens)))))"

section \<open>The profiler\<close>

text \<open>The body of the loop of \<^verbatim>\<open>analyze_dataframe\<close> for one column, \<open>n\<close> being \<^verbatim>\<open>len(df)\<close>.\<close>

definition analyze_column :: "nat \<Rightarrow> column \<Rightarrow> py_error + col_info" where
  "analyze_column n c =
     (let cs = cells (values_of c);
          ci = \<lparr> dtype = dtype_name c,
                 non_null = notna_sum cs,
                 null_n = isna_sum cs,
                 null_percentage = np_round2 (fl_mul (np_true_divide (isna_sum cs) n) (Fin 100)),
                 unique = nunique cs,
                 extra = NoStats \<rparr>
      in case values_of c of
           NumericData xs \<Rightarrow>
             Inr (ci\<lparr> extra := NumericStats (series_mean (non_nulls xs)) (series_median (non_nulls xs))
                                  (series_min (non_nulls xs)) (series_max (non_nulls xs))
                                  (series_std (non_nulls xs)) \<rparr>)
         | StringData xs \<Rightarrow>
             (case text_stats xs of Inl e \<Rightarrow> Inl e | Inr st \<Rightarrow> Inr (ci\<lparr> extra := st \<rparr>))
         | OtherData xs \<Rightarrow> Inr ci)"

fun analyze_columns :: "nat \<Rightarrow> (string \<times> column) list \<Rightarrow> py_error + (string \<times> col_info) list" where
  "analyze_columns n [] = Inr []"
| "analyze_columns n ((name, c) # rest) =
     (case analyze_column n c of
        Inl e \<Rightarrow> Inl e
      | Inr ci \<Rightarrow>
          (case analyze_columns n rest of
             Inl e \<Rightarrow> Inl e
           | Inr infos \<Rightarrow> Inr ((name, ci) # infos)))"

text \<open>\<^verbatim>\<open>df.duplicated()\<close> with its defaults marks a row when an earlier row has the same
  value in every column, missing values counting as equal. On an empty frame (no rows or
  no columns) pandas returns an empty Series.\<close>

fun duplicated :: "'a list \<Rightarrow> 'a list \<Rightarrow> bool list" where
  "duplicated seen [] = []"
| "duplicated seen (r # rs) = (r \<in> set seen) # duplicated (seen @ [r]) rs"

definition df_rows :: "dataframe \<Rightarrow> scalar option list list" where
  "df_rows df = map (\<lambda>i. map (\<lambda>(name, c). cells (values_of c) ! i) (cols df)) [0..<nrows df]"

definition df_empty :: "dataframe \<Rightarrow> bool" where
  "df_empty df \<longleftrightarrow> nrows df = 0 \<or> cols df = []"

definition duplicated_sum :: "dataframe \<Rightarrow> nat" where
  "duplicated_sum df =
     (if df_empty df then 0 else length (filter (\<lambda>b. b) (duplicated [] (df_rows df))))"

text \<open>\<^verbatim>\<open>analyze_dataframe\<close>; \<open>mem\<close> is \<^verbatim>\<open>df.memory_usage(deep=True).sum()\<close>, which pandas
  estimates.\<close>

definition analyze_dataframe :: "nat \<Rightarrow> dataframe \<Rightarrow> string \<Rightarrow> py_error + profile" where
  "analyze_dataframe mem df fname =
     (let prof = \<lparr> filename = fname,
                   rows = nrows df,
                   columns = length (cols df),
                   size_mb = fl_div (Fin (of_nat mem)) (Fin (1024 * 1024)),
                   duplicates =
                     \<lparr> total = duplicated_sum df,
                       percentage =
                         np_round2 (fl_mul (np_true_divide (duplicated_sum df) (nrows df)) (Fin 100)) \<rparr>,
                   columns_info = [] \<rparr>
      in case analyze_columns (nrows df) (cols df) of
           Inl e \<Rightarrow> Inl e
         | Inr infos \<Rightarrow> Inr (prof\<lparr> columns_info := infos \<rparr>))"

section \<open>Reports\<close>

text \<open>
  The renderers are modelled up to the text they format: a row or section is the tuple of
  values that the f-strings print. \<^verbatim>\<open>sum(...)\<close> starts from the Python integer 0, so the sum of
  no values is that integer and a division of it by a zero length raises; a sum of doubles
  is a double, whose division follows NumPy.
\<close>

datatype pynum = PyInt int | NpFloat npfloat

fun py_add :: "pynum \<Rightarrow> npfloat \<Rightarrow> pynum" where
  "py_add (PyInt i) x = NpFloat (fl_add (Fin (of_int i)) x)"
| "py_add (NpFloat a) x = NpFloat (fl_add a x)"

definition py_sum :: "npfloat list \<Rightarrow> pynum" where
  "py_sum xs = foldl py_add (PyInt 0) xs"

fun py_div_len :: "pynum \<Rightarrow> nat \<Rightarrow> py_error + npfloat" where
  "py_div_len (PyInt a) n = py_truediv a (int n)"
| "py_div_len (NpFloat x) n = Inr (fl_div x (Fin (of_nat n)))"

text \<open>The average null percentage computed by \<^verbatim>\<open>print_profile_table\<close> for one profile.\<close>

definition avg_null :: "profile \<Rightarrow> py_error + npfloat" where
  "avg_null p =
     py_div_len (py_sum (map (\<lambda>(name, col). null_percentage col) (columns_info p)))
       (length (columns_info p))"

definition score_color :: "npfloat \<Rightarrow> string" where
  "score_color q =
     (if fl_le (Fin 90) q then ''green'' else if fl_le (Fin 70) q then ''yellow'' else ''red'')"

record table_row =
  row_file :: string
  row_rows :: nat
  row_columns :: nat
  row_avg_null :: npfloat
  row_duplicates :: nat
  row_score :: npfloat
  row_color :: string

fun print_profile_table :: "(string \<times> profile) list \<Rightarrow> py_error + table_row list" where
  "print_profile_table [] = Inr []"
| "print_profile_table ((fname, p) # rest) =
     (case avg_null p of
        Inl e \<Rightarrow> Inl e
      | Inr a \<Rightarrow>
          (case print_profile_table rest of
             Inl e \<Rightarrow> Inl e
           | Inr table \<Rightarrow>
               Inr (\<lparr> row_file = fname, row_rows = rows p, row_columns = columns p,
                      row_avg_null = a, row_duplicates = total (duplicates p),
                      row_score = generate_quality_score p,
                      row_color = score_color (generate_quality_score p) \<rparr> # table)))"

text \<open>\<^verbatim>\<open>generate_markdown_report\<close>: the column table divides two Python integers,
  \<^verbatim>\<open>col_info["non_null"] / profile["rows"]\<close>.\<close>

datatype issue = NullIssue string npfloat | DuplicateIssue npfloat

record report_section =
  sec_file :: string
  sec_score :: npfloat
  sec_rows :: nat
  sec_columns :: nat
  sec_size_mb :: npfloat
  sec_duplicates :: duplicates_info
  sec_details :: "(string \<times> string \<times> npfloat \<times> nat) list"
  sec_issues :: "issue list"

fun column_details :: "nat \<Rightarrow> (string \<times> col_info) list \<Rightarrow> py_error + (string \<times> string \<times> npfloat \<times> nat) list" where
  "column_details r [] = Inr []"
| "column_details r ((col_name, ci) # rest) =
     (case py_truediv (int (non_null ci)) (int r) of
        Inl e \<Rightarrow> Inl e
      | Inr q \<Rightarrow>
          (case column_details r rest of
             Inl e \<Rightarrow> Inl e
           | Inr table \<Rightarrow> Inr ((col_name, dtype ci, fl_mul q (Fin 100), unique ci) # table)))"

definition quality_issues :: "profile \<Rightarrow> issue list" where
  "quality_issues p =
     map (\<lambda>(col_name, ci). NullIssue col_name (null_percentage ci))
       (filter (\<lambda>(col_name, ci). fl_less (Fin 10) (null_percentage ci)) (columns_info p))
     @ (if fl_less (Fin 5) (percentage (duplicates p))
        then [DuplicateIssue (percentage (duplicates p))] else [])"

definition report_section :: "string \<Rightarrow> profile \<Rightarrow> py_error + report_section" where
  "report_section fname p =
     (case column_details (rows p) (columns_info p) of
        Inl e \<Rightarrow> Inl e
      | Inr table \<Rightarrow>
          Inr \<lparr> sec_file = fname, sec_score = generate_quality_score p, sec_rows = rows p,
                sec_columns = columns p, sec_size_mb = size_mb p, sec_duplicates = duplicates p,
                sec_details = table, sec_issues = quality_issues p \<rparr>)"

fun report_sections :: "(string \<times> profile) list \<Rightarrow> py_error + report_section list" where
  "report_sections [] = Inr []"
| "report_sections ((fname, p) # rest) =
     (case report_section fname p of
        Inl e \<Rightarrow> Inl e
      | Inr sec \<Rightarrow>
          (case report_sections rest of Inl e \<Rightarrow> Inl e | Inr secs \<Rightarrow> Inr (sec # secs)))"

definition generate_markdown_report :: "(string \<times> profile) list \<Rightarrow> py_error + npfloat \<times> report_section list" where
  "generate_markdown_report profiles =
     (case py_div_len (py_sum (map (\<lambda>(fname, p). generate_quality_score p) profiles))
             (length profiles) of
        Inl e \<Rightarrow> Inl e
      | Inr avg_score \<Rightarrow>
          (case report_sections (sort_key fst profiles) of
             Inl e \<Rightarrow> Inl e
           | Inr secs \<Rightarrow> Inr (avg_score, secs)))"

section \<open>The specification's wording\<close>

text \<open>A percentage as the specification computes it, on exact numbers: part / whole * 100,
  rounded to 2 decimal places.\<close>

definition round2 :: "real \<Rightarrow> real" where
  "round2 x = of_int (rint (x * 100)) / 100"

definition spec_percentage :: "nat \<Rightarrow> nat \<Rightarrow> real" where
  "spec_percentage part whole = round2 (of_nat part / of_nat whole * 100)"


text \<open>The mean of a non-empty list of doubles.\<close>

definition spec_mean :: "npfloat list \<Rightarrow> npfloat" where
  "spec_mean xs = fl_div (fl_sum xs) (Fin (of_nat (length xs)))"

section \<open>Auxiliary notions and example data\<close>

text \<open>A running score that has only lost points is finite or minus infinity.\<close>

fun no_gain :: "npfloat \<Rightarrow> bool" where
  "no_gain (Fin x) = True"
| "no_gain NInf = True"
| "no_gain _ = False"

definition example_col :: "npfloat \<Rightarrow> col_info" where
  "example_col x =
     \<lparr> dtype = ''float64'', non_null = 3, null_n = 1, null_percentage = x,
       unique = 3, extra = NoStats \<rparr>"

definition example_profile :: "npfloat \<Rightarrow> profile" where
  "example_profile x =
     \<lparr> filename = ''t.csv'', rows = 4, columns = 2, size_mb = Fin 0,
       duplicates = \<lparr> total = 0, percentage = Fin 0 \<rparr>,
       columns_info = [(''a'', example_col x), (''b'', example_col (Fin 0))] \<rparr>"

text \<open>Scenario 1 of the specification: three rows, two columns, one missing value in
  column A, no duplicate row; and the profile that \<^verbatim>\<open>analyze_dataframe\<close> returns for it.\<close>

definition scenario_frame :: dataframe where
  "scenario_frame =
     \<lparr> nrows = 3,
       cols = [(''A'', \<lparr> dtype_name = ''float64'',
                         values_of = NumericData [Some 1, None, Some 1] \<rparr>),
               (''B'', \<lparr> dtype_name = ''object'',
                         values_of = StringData [Some ''x'', Some ''y'', Some ''z''] \<rparr>)] \<rparr>"

definition scenario_col_a :: col_info where
  "scenario_col_a =
     \<lparr> dtype = ''float64'', non_null = 2, null_n = 1, null_percentage = Fin (3333 / 100),
       unique = 1, extra = NumericStats (Fin 1) (Fin 1) (Fin 1) (Fin 1) (Fin 0) \<rparr>"

definition scenario_col_b :: col_info where
  "scenario_col_b =
     \<lparr> dtype = ''object'', non_null = 3, null_n = 0, null_percentage = Fin 0,
       unique = 3, extra = TextStats 1 1 0 \<rparr>"

definition scenario_profile :: profile where
  "scenario_profile =
     \<lparr> filename = ''t.csv'', rows = 3, columns = 2, size_mb = Fin 0,
       duplicates = \<lparr> total = 0, percentage = Fin 0 \<rparr>,
       columns_info = [(''A'', scenario_col_a), (''B'', scenario_col_b)] \<rparr>"

text \<open>A frame without rows that has one numeric column, and its profile.\<close>

definition empty_frame :: dataframe where
  "empty_frame =
     \<lparr> nrows = 0,
       cols = [(''a'', \<lparr> dtype_name = ''float64'', values_of = NumericData [] \<rparr>)] \<rparr>"

definition empty_col :: col_info where
  "empty_col =
     \<lparr> dtype = ''float64'', non_null = 0, null_n = 0, null_percentage = NaN,
       unique = 0, extra = NumericStats NaN NaN NaN NaN NaN \<rparr>"

definition empty_profile :: profile where
  "empty_profile =
     \<lparr> filename = ''t.csv'', rows = 0, columns = 1, size_mb = Fin 0,
       duplicates = \<lparr> total = 0, percentage = NaN \<rparr>,
       columns_info = [(''a'', empty_col)] \<rparr>"




definition bare_profile :: profile where
  "bare_profile =
     \<lparr> filename = ''t.csv'', rows = 2, columns = 0, size_mb = Fin 0,
       duplicates = \<lparr> total = 0, percentage = Fin 0 \<rparr>,
       columns_info = [] \<rparr>"

section \<open>Arithmetic of the number model\<close>

lemma fl_add_assoc: "fl_add (fl_add a b) c = fl_add a (fl_add b c)"
  by (cases a; cases b; cases c) simp_all




section \<open>Claims about the quality score\<close>


lemma fl_sub_penalty_mono:
  assumes "fl_le a b" "no_gain a" "no_gain b" "fl_le (Fin 0) x" "0 < c"
  shows "fl_le (fl_sub a (fl_mul x (Fin c))) (fl_sub b (fl_mul x (Fin c)))
         \<and> no_gain (fl_sub a (fl_mul x (Fin c))) \<and> no_gain (fl_sub b (fl_mul x (Fin c)))"
  using assms by (cases a; cases b; cases x) (auto simp: fl_le_def fl_sub_def)

lemma fl_sub_penalty_less:
  assumes "no_gain a" "fl_le (Fin 0) x" "fl_less x y" "0 < c"
  shows "fl_le (fl_sub a (fl_mul y (Fin c))) (fl_sub a (fl_mul x (Fin c)))
         \<and> no_gain (fl_sub a (fl_mul y (Fin c))) \<and> no_gain (fl_sub a (fl_mul x (Fin c)))"
  using assms by (cases a; cases x; cases y) (auto simp: fl_le_def fl_sub_def)

lemma foldl_penalty_mono:
  assumes "fl_le a b" "no_gain a" "no_gain b"
    and "\<forall>ci \<in> set cs. fl_le (Fin 0) (null_percentage ci)"
  shows "fl_le (foldl (\<lambda>s ci. fl_sub s (fl_mul (null_percentage ci) (Fin (1 / 2)))) a cs)
               (foldl (\<lambda>s ci. fl_sub s (fl_mul (null_percentage ci) (Fin (1 / 2)))) b cs)
       \<and> no_gain (foldl (\<lambda>s ci. fl_sub s (fl_mul (null_percentage ci) (Fin (1 / 2)))) a cs)
       \<and> no_gain (foldl (\<lambda>s ci. fl_sub s (fl_mul (null_percentage ci) (Fin (1 / 2)))) b cs)"
  using assms
proof (induction cs arbitrary: a b)
  case Nil
  then show ?case by simp
next
  case (Cons c cs)
  have step: "fl_le (fl_sub a (fl_mul (null_percentage c) (Fin (1 / 2))))
                    (fl_sub b (fl_mul (null_percentage c) (Fin (1 / 2))))
         \<and> no_gain (fl_sub a (fl_mul (null_percentage c) (Fin (1 / 2))))
         \<and> no_gain (fl_sub b (fl_mul (null_percentage c) (Fin (1 / 2))))"
    using fl_sub_penalty_mono [of a b "null_percentage c" "1 / 2"] Cons.prems by simp
  show ?case
    using Cons.IH [of "fl_sub a (fl_mul (null_percentage c) (Fin (1 / 2)))"
                      "fl_sub b (fl_mul (null_percentage c) (Fin (1 / 2)))"] step Cons.prems(4)
    by simp
qed

lemma py_max_mono:
  "fl_le a b \<Longrightarrow> fl_le (py_max (Fin 0) a) (py_max (Fin 0) b)"
  by (cases a; cases b) (auto simp: fl_le_def py_max_def)

text \<open>
  C5. Take two profiles that differ only in one column's null_percentage, which is larger in
  the second, all percentages being non-negative. Then the quality score of the second is
  less than or equal to that of the first.
\<close>

theorem quality_score_monotone:
  assumes cols_p: "columns_info p = pre @ (name, ci) # post"
    and q_def: "q = p\<lparr>columns_info := pre @ (name, ci\<lparr>null_percentage := v\<rparr>) # post\<rparr>"
    and larger: "fl_less (null_percentage ci) v"
    and nonneg: "\<forall>(n, c) \<in> set (columns_info p). fl_le (Fin 0) (null_percentage c)"
    and dup_nonneg: "fl_le (Fin 0) (percentage (duplicates p))"
  shows "fl_le (generate_quality_score q) (generate_quality_score p)"
proof -
  let ?f = "\<lambda>s ci. fl_sub s (fl_mul (null_percentage ci) (Fin (1 / 2)))"
  let ?a = "foldl ?f (Fin 100) (map snd pre)"
  have pre_ok: "\<forall>c \<in> set (map snd pre). fl_le (Fin 0) (null_percentage c)"
    and post_ok: "\<forall>c \<in> set (map snd post). fl_le (Fin 0) (null_percentage c)"
    and ci_ok: "fl_le (Fin 0) (null_percentage ci)"
    using nonneg cols_p by auto
  have "no_gain ?a"
    using foldl_penalty_mono [of "Fin 100" "Fin 100" "map snd pre"] pre_ok
    by (simp add: fl_le_def)
  then have step: "fl_le (fl_sub ?a (fl_mul v (Fin (1 / 2)))) (?f ?a ci)
      \<and> no_gain (fl_sub ?a (fl_mul v (Fin (1 / 2)))) \<and> no_gain (?f ?a ci)"
    using fl_sub_penalty_less [of ?a "null_percentage ci" v "1 / 2"] ci_ok larger by simp
  let ?bq = "foldl ?f (fl_sub ?a (fl_mul v (Fin (1 / 2)))) (map snd post)"
  let ?bp = "foldl ?f (?f ?a ci) (map snd post)"
  have rest: "fl_le ?bq ?bp \<and> no_gain ?bq \<and> no_gain ?bp"
    using foldl_penalty_mono [OF _ _ _ post_ok, of "fl_sub ?a (fl_mul v (Fin (1 / 2)))" "?f ?a ci"] step
    by blast
  let ?d = "fl_mul (percentage (duplicates p)) (Fin 2)"
  have "fl_le (fl_sub ?bq ?d) (fl_sub ?bp ?d)"
    using fl_sub_penalty_mono [of ?bq ?bp "percentage (duplicates p)" 2] rest dup_nonneg by simp
  then have "fl_le (py_max (Fin 0) (fl_sub ?bq ?d)) (py_max (Fin 0) (fl_sub ?bp ?d))"
    by (rule py_max_mono)
  moreover have "generate_quality_score q = py_max (Fin 0) (fl_sub ?bq ?d)"
    by (simp add: generate_quality_score_def q_def)
  moreover have "generate_quality_score p = py_max (Fin 0) (fl_sub ?bp ?d)"
    by (simp add: generate_quality_score_def cols_p)
  ultimately show ?thesis by simp
qed

theorem quality_score_monotone_witness:
  "fl_less (Fin 25) (Fin 50) \<and>
   fl_le (generate_quality_score (example_profile (Fin 50)))
         (generate_quality_score (example_profile (Fin 25)))"
  using quality_score_monotone [where p = "example_profile (Fin 25)" and pre = "[]"
      and name = "''a''" and ci = "example_col (Fin 25)" and post = "[(''b'', example_col (Fin 0))]"
      and q = "example_profile (Fin 50)" and v = "Fin 50"]
  by (simp add: example_profile_def example_col_def fl_le_def)

section \<open>Columns and their profiles\<close>

lemma analyze_columns_names:
  "analyze_columns n cs = Inr infos \<Longrightarrow> map fst infos = map fst cs"
  by (induction cs arbitrary: infos) (auto split: sum.splits)

lemma analyze_columns_entry:
  "analyze_columns n cs = Inr infos \<Longrightarrow> (name, ci) \<in> set infos \<Longrightarrow>
     \<exists>c. (name, c) \<in> set cs \<and> analyze_column n c = Inr ci"
  by (induction cs arbitrary: infos) (fastforce split: sum.splits)+

lemma analyze_dataframe_Inr:
  assumes "analyze_dataframe mem df fname = Inr p"
  shows "rows p = nrows df"
    and "analyze_columns (nrows df) (cols df) = Inr (columns_info p)"
    and "total (duplicates p) = duplicated_sum df"
    and "percentage (duplicates p)
           = np_round2 (fl_mul (np_true_divide (duplicated_sum df) (nrows df)) (Fin 100))"
  using assms by (auto simp: analyze_dataframe_def Let_def split: sum.splits)

lemma analyze_column_Inr:
  assumes "analyze_column n c = Inr ci"
  shows "non_null ci = notna_sum (cells (values_of c))"
    and "null_n ci = isna_sum (cells (values_of c))"
    and "unique ci = nunique (cells (values_of c))"
    and "null_percentage ci
           = np_round2 (fl_mul (np_true_divide (isna_sum (cells (values_of c))) n) (Fin 100))"
  using assms by (auto simp: analyze_column_def Let_def split: coldata.splits sum.splits)

lemma notna_isna_sum: "notna_sum cs + isna_sum cs = length cs"
  unfolding notna_sum_def isna_sum_def
  by (induction cs) auto

lemma length_non_nulls: "length (non_nulls cs) = notna_sum cs"
  unfolding notna_sum_def
  by (induction cs rule: non_nulls.induct) auto

lemma set_non_nulls: "set (non_nulls cs) = {v. Some v \<in> set cs}"
  by (induction cs rule: non_nulls.induct) auto

lemma wf_df_length:
  "wf_df df \<Longrightarrow> (name, c) \<in> set (cols df) \<Longrightarrow> length (cells (values_of c)) = nrows df"
  by (auto simp: wf_df_def list_all_iff)

lemma np_percentage:
  "np_round2 (fl_mul (np_true_divide k n) (Fin 100))
     = (if n = 0 then (if k = 0 then NaN else PInf) else Fin (spec_percentage k n))"
  by (simp add: np_true_divide_def spec_percentage_def round2_def)

section \<open>Evaluating the examples\<close>

lemma spec_percentage_third: "spec_percentage (Suc 0) 3 = 3333 / 100"
  by (simp add: spec_percentage_def round2_def rint_def)

lemma spec_percentage_zero: "spec_percentage 0 n = 0"
  by (simp add: spec_percentage_def round2_def rint_def)

lemma wf_scenario_frame: "wf_df scenario_frame"
  by (simp add: wf_df_def scenario_frame_def)

lemma df_rows_scenario_frame:
  "df_rows scenario_frame =
     [[Some (NumV 1), Some (StrV ''x'')], [None, Some (StrV ''y'')], [Some (NumV 1), Some (StrV ''z'')]]"
  by (simp add: df_rows_def scenario_frame_def upt_rec)

lemma duplicated_sum_scenario_frame: "duplicated_sum scenario_frame = 0"
proof -
  have "\<not> df_empty scenario_frame"
    by (simp add: df_empty_def scenario_frame_def)
  then show ?thesis
    by (simp add: duplicated_sum_def df_rows_scenario_frame)
qed

lemma analyze_columns_scenario_frame:
  "analyze_columns 3 (cols scenario_frame) = Inr [(''A'', scenario_col_a), (''B'', scenario_col_b)]"
  by (simp add: scenario_frame_def scenario_col_a_def scenario_col_b_def analyze_column_def
      isna_sum_def notna_sum_def nunique_def np_percentage spec_percentage_third
      spec_percentage_zero       series_mean_def series_median_def series_min_def series_max_def series_std_def
      text_stats_def)

lemma analyze_scenario_frame:
  "analyze_dataframe 0 scenario_frame ''t.csv'' = Inr scenario_profile"
proof -
  have "nrows scenario_frame = 3" "length (cols scenario_frame) = 2"
    by (simp_all add: scenario_frame_def)
  then show ?thesis
    by (simp add: analyze_dataframe_def analyze_columns_scenario_frame
        duplicated_sum_scenario_frame np_percentage scenario_profile_def
        spec_percentage_zero)
qed

lemma wf_empty_frame: "wf_df empty_frame"
  by (simp add: wf_df_def empty_frame_def)

lemma analyze_empty_frame:
  "analyze_dataframe 0 empty_frame ''t.csv'' = Inr empty_profile"
  by (simp add: analyze_dataframe_def empty_frame_def empty_profile_def empty_col_def
      analyze_column_def isna_sum_def notna_sum_def nunique_def np_percentage
      duplicated_sum_def df_empty_def
      series_mean_def series_median_def series_min_def series_max_def series_std_def)


lemma score_empty_profile: "generate_quality_score empty_profile = Fin 0"
  by (simp add: generate_quality_score_def empty_profile_def empty_col_def fl_sub_def py_max_def)
section \<open>Claims about the column analyzer\<close>




text \<open>
  C8. For every well-formed dataset that the profiler accepts and every column, the
  unique field of the column's profile is the number of distinct non-null values of the
  column, and it is at most the column's non_null count.
\<close>

theorem unique_counts_distinct_non_null:
  assumes "wf_df df" and "analyze_dataframe mem df fname = Inr p"
    and "(name, ci) \<in> set (columns_info p)" and "(name, c) \<in> set (cols df)"
  shows "unique ci = card {v. Some v \<in> set (cells (values_of c))} \<and> unique ci \<le> non_null ci"
proof -
  obtain c' where c': "(name, c') \<in> set (cols df)" "analyze_column (nrows df) c' = Inr ci"
    using analyze_columns_entry [OF analyze_dataframe_Inr(2) [OF assms(2)] assms(3)] by blast
  have "distinct (map fst (cols df))"
    using assms(1) by (simp add: wf_df_def)
  then have "c' = c"
    using c'(1) assms(4) by (rule eq_key_imp_eq_value)
  then have ci: "analyze_column (nrows df) c = Inr ci"
    using c'(2) by simp
  have "unique ci = card (set (non_nulls (cells (values_of c))))"
    by (simp add: analyze_column_Inr(3) [OF ci] nunique_def length_remdups_card_conv)
  moreover have "unique ci \<le> non_null ci"
    using length_remdups_leq [of "non_nulls (cells (values_of c))"]
    by (simp add: analyze_column_Inr [OF ci] nunique_def length_non_nulls)
  ultimately show ?thesis
    by (simp add: set_non_nulls)
qed

theorem unique_counts_distinct_non_null_witness:
  "unique scenario_col_a
     = card {v. Some v \<in> set (cells (NumericData [Some 1, None, Some 1]))} \<and>
   unique scenario_col_a \<le> non_null scenario_col_a"
  using unique_counts_distinct_non_null [OF wf_scenario_frame analyze_scenario_frame,
      of "''A''" scenario_col_a
         "\<lparr> dtype_name = ''float64'', values_of = NumericData [Some 1, None, Some 1] \<rparr>"]
  by (simp add: scenario_profile_def scenario_frame_def)

text \<open>
  C6. For every numeric column with zero non-null values the column analyzer returns a
  column profile (it raises nothing), and the mean, median, minimum, maximum and standard
  deviation of that profile are all NaN, the marker of an undefined number.
\<close>

theorem numeric_column_without_values:
  assumes "values_of c = NumericData xs" and "notna_sum xs = 0"
  shows "\<exists>ci. analyze_column n c = Inr ci \<and> extra ci = NumericStats NaN NaN NaN NaN NaN"
proof -
  have "non_nulls xs = []"
    using assms(2) length_non_nulls [of xs] by simp
  then show ?thesis
    by (simp add: analyze_column_def assms(1) Let_def series_mean_def series_median_def
        series_min_def series_max_def series_std_def)
qed

theorem numeric_column_without_values_witness:
  "\<exists>ci. analyze_column 2 \<lparr> dtype_name = ''float64'', values_of = NumericData [None, None] \<rparr> = Inr ci
     \<and> extra ci = NumericStats NaN NaN NaN NaN NaN"
  using numeric_column_without_values
    [of "\<lparr> dtype_name = ''float64'', values_of = NumericData [None, None] \<rparr>" "[None, None]" 2]
  by (simp add: notna_sum_def)

section \<open>Duplicate rows\<close>




lemma length_duplicated: "length (duplicated seen rs) = length rs"
  by (induction rs arbitrary: seen) simp_all

lemma duplicated_sum_le: "duplicated_sum df \<le> nrows df"
proof -
  have "length (filter (\<lambda>b. b) (duplicated [] (df_rows df))) \<le> length (df_rows df)"
    using length_filter_le [of "\<lambda>b. b" "duplicated [] (df_rows df)"]
    by (simp add: length_duplicated)
  then show ?thesis
    by (simp add: duplicated_sum_def df_rows_def)
qed











section \<open>Scenario 1\<close>




section \<open>Claims about the reports\<close>

lemma fl_add_zero_right: "fl_add a (Fin 0) = a"
  by (cases a) simp_all

lemma fl_add_zero_left: "fl_add (Fin 0) a = a"
  by (cases a) simp_all

lemma fl_add_NaN_right: "fl_add a NaN = NaN"
  by (cases a) simp_all

lemma foldl_fl_add: "foldl fl_add a xs = fl_add a (fl_sum xs)"
proof (induction xs arbitrary: a)
  case Nil
  show ?case by (simp add: fl_sum_def fl_add_zero_right)
next
  case (Cons x xs)
  then show ?case by (simp add: fl_sum_def fl_add_assoc)
qed

lemma foldl_py_add: "foldl py_add (NpFloat a) xs = NpFloat (foldl fl_add a xs)"
  by (induction xs arbitrary: a) simp_all

lemma py_sum_nonempty: "xs \<noteq> [] \<Longrightarrow> py_sum xs = NpFloat (fl_sum xs)"
  by (cases xs) (simp_all add: py_sum_def foldl_py_add foldl_fl_add fl_add_zero_left fl_sum_def)

lemma py_div_len_sum_nonempty:
  "xs \<noteq> [] \<Longrightarrow> py_div_len (py_sum xs) n = Inr (fl_div (fl_sum xs) (Fin (of_nat n)))"
  by (simp add: py_sum_nonempty)

lemma column_details_error: "column_details r cs = Inl e \<Longrightarrow> e = ZeroDivisionError"
  by (induction cs) (auto simp: py_truediv_def split: sum.splits if_splits)

lemma column_details_no_rows: "cs \<noteq> [] \<Longrightarrow> column_details 0 cs = Inl ZeroDivisionError"
  by (cases cs) (auto simp: py_truediv_def)

lemma report_section_error: "report_section fname p = Inl e \<Longrightarrow> e = ZeroDivisionError"
  by (auto simp: report_section_def split: sum.splits dest: column_details_error)

lemma report_sections_raises:
  "(fname, p) \<in> set ps \<Longrightarrow> report_section fname p = Inl ZeroDivisionError \<Longrightarrow>
     report_sections ps = Inl ZeroDivisionError"
proof (induction ps)
  case Nil
  then show ?case by simp
next
  case (Cons x ps)
  obtain g q where x: "x = (g, q)" by (cases x)
  show ?case
  proof (cases "report_section g q")
    case (Inl e)
    then show ?thesis
      using report_section_error [OF Inl] by (simp add: x)
  next
    case (Inr sec)
    then have "(fname, p) \<in> set ps"
      using Cons.prems by (auto simp: x)
    then show ?thesis
      using Cons.IH Cons.prems(2) Inr by (simp add: x)
  qed
qed

text \<open>
  C10. For a profile whose columns_info is empty the summary table raises
  ZeroDivisionError when it computes the average null percentage; for every profile with
  at least one column that average is defined and is the mean of the columns'
  null_percentage values.
\<close>

theorem avg_null_division:
  "(columns_info p = [] \<longrightarrow>
      avg_null p = Inl ZeroDivisionError \<and>
      print_profile_table ((fname, p) # rest) = Inl ZeroDivisionError) \<and>
   (columns_info p \<noteq> [] \<longrightarrow>
      avg_null p = Inr (spec_mean (map (\<lambda>(name, col). null_percentage col) (columns_info p))))"
proof -
  have "avg_null p = Inl ZeroDivisionError" if "columns_info p = []"
    using that by (simp add: avg_null_def py_sum_def py_truediv_def)
  moreover have "avg_null p
      = Inr (spec_mean (map (\<lambda>(name, col). null_percentage col) (columns_info p)))"
    if "columns_info p \<noteq> []"
    using that by (simp add: avg_null_def py_div_len_sum_nonempty spec_mean_def)
  ultimately show ?thesis by simp
qed

theorem avg_null_division_witness:
  "avg_null bare_profile = Inl ZeroDivisionError \<and>
   print_profile_table [(''t.csv'', bare_profile)] = Inl ZeroDivisionError \<and>
   avg_null scenario_profile = Inr (Fin (3333 / 200))"
proof -
  have "columns_info bare_profile = []" "columns_info scenario_profile \<noteq> []"
    by (simp_all add: bare_profile_def scenario_profile_def)
  moreover have "spec_mean (map (\<lambda>(name, col). null_percentage col) (columns_info scenario_profile))
      = Fin (3333 / 200)"
    by (simp add: spec_mean_def fl_sum_def scenario_profile_def scenario_col_a_def
        scenario_col_b_def)
  ultimately show ?thesis
    using avg_null_division [of bare_profile "''t.csv''" "[]"]
      avg_null_division [of scenario_profile "''t.csv''" "[]"]
    by simp
qed

text \<open>
  C2, as the code has it. For every well-formed dataset with zero rows, profiling raises
  no division error; when it returns a profile, the profile has row_count = 0, every
  column's null_percentage is NaN, duplicate_percentage is NaN and the quality score is
  0; and when that profile has at least one column, report generation raises
  ZeroDivisionError in the non-null percentage of the column table.
\<close>

theorem zero_rows_profile:
  assumes "wf_df df" and "nrows df = 0"
  shows "analyze_dataframe mem df fname \<noteq> Inl ZeroDivisionError \<and>
         (analyze_dataframe mem df fname = Inr p \<longrightarrow>
            rows p = 0 \<and>
            (\<forall>(name, ci) \<in> set (columns_info p). null_percentage ci = NaN) \<and>
            percentage (duplicates p) = NaN \<and>
            generate_quality_score p = Fin 0 \<and>
            (columns_info p \<noteq> [] \<and> (fname, p) \<in> set profiles \<longrightarrow>
               generate_markdown_report profiles = Inl ZeroDivisionError))"
proof -
  have no_zde: "analyze_columns n cs \<noteq> Inl ZeroDivisionError" for n cs
    by (induction cs)
       (auto simp: analyze_column_def text_stats_def Let_def
          split: sum.splits coldata.splits list.splits)
  then have first: "analyze_dataframe mem df fname \<noteq> Inl ZeroDivisionError"
    by (auto simp: analyze_dataframe_def Let_def split: sum.splits)
  have second: "rows p = 0 \<and>
       (\<forall>(name, ci) \<in> set (columns_info p). null_percentage ci = NaN) \<and>
       percentage (duplicates p) = NaN \<and>
       generate_quality_score p = Fin 0 \<and>
       (columns_info p \<noteq> [] \<and> (fname, p) \<in> set profiles \<longrightarrow>
          generate_markdown_report profiles = Inl ZeroDivisionError)"
    if ok: "analyze_dataframe mem df fname = Inr p"
  proof -
    note facts = analyze_dataframe_Inr [OF ok]
    have rows0: "rows p = 0"
      using facts(1) assms(2) by simp
    have pcts: "null_percentage ci = NaN" if entry: "(name, ci) \<in> set (columns_info p)" for name ci
    proof -
      obtain c where c: "(name, c) \<in> set (cols df)" "analyze_column (nrows df) c = Inr ci"
        using analyze_columns_entry [OF facts(2) entry] by blast
      have "isna_sum (cells (values_of c)) = 0"
        using notna_isna_sum [of "cells (values_of c)"] wf_df_length [OF assms(1) c(1)] assms(2)
        by simp
      then show ?thesis
        by (simp add: analyze_column_Inr(4) [OF c(2)] assms(2) np_percentage)
    qed
    have "duplicated_sum df = 0"
      using duplicated_sum_le [of df] assms(2) by simp
    then have dup: "percentage (duplicates p) = NaN"
      by (simp add: facts(4) assms(2) np_percentage)
    have score: "generate_quality_score p = Fin 0"
      by (simp add: generate_quality_score_def dup fl_sub_def fl_add_NaN_right py_max_def)
    have report: "generate_markdown_report profiles = Inl ZeroDivisionError"
      if "columns_info p \<noteq> []" "(fname, p) \<in> set profiles"
    proof -
      have "report_section fname p = Inl ZeroDivisionError"
        using that(1) by (simp add: report_section_def rows0 column_details_no_rows)
      moreover have "(fname, p) \<in> set (sort_key fst profiles)"
        using that(2) by simp
      ultimately have "report_sections (sort_key fst profiles) = Inl ZeroDivisionError"
        by (rule report_sections_raises [rotated])
      moreover have "profiles \<noteq> []"
        using that(2) by auto
      ultimately show ?thesis
        by (simp add: generate_markdown_report_def py_div_len_sum_nonempty)
    qed
    show ?thesis
      using rows0 pcts dup score report by auto
  qed
  show ?thesis
    using first second by blast
qed

theorem zero_rows_profile_witness:
  "analyze_dataframe 0 empty_frame ''t.csv'' \<noteq> Inl ZeroDivisionError \<and>
   rows empty_profile = 0 \<and>
   columns_info empty_profile = [(''a'', empty_col)] \<and>
   null_percentage empty_col = NaN \<and>
   percentage (duplicates empty_profile) = NaN \<and>
   generate_quality_score empty_profile = Fin 0 \<and>
   generate_markdown_report [(''t.csv'', empty_profile)] = Inl ZeroDivisionError"
proof -
  have "nrows empty_frame = 0" "columns_info empty_profile \<noteq> []"
    by (simp_all add: empty_frame_def empty_profile_def)
  then show ?thesis
    using zero_rows_profile [OF wf_empty_frame, of 0 "''t.csv''" empty_profile
        "[(''t.csv'', empty_profile)]"]
    by (simp add: analyze_empty_frame) (simp add: empty_profile_def)
qed

text \<open>On the frame without rows the two percentages are NaN instead of 0, the score is
  0 instead of 100, and the report raises ZeroDivisionError.\<close>

theorem zero_rows_counterexample:
  "nrows empty_frame = 0 \<and>
   analyze_dataframe 0 empty_frame ''t.csv'' = Inr empty_profile \<and>
   columns_info empty_profile = [(''a'', empty_col)] \<and>
   null_percentage empty_col \<noteq> Fin 0 \<and>
   percentage (duplicates empty_profile) \<noteq> Fin 0 \<and>
   generate_quality_score empty_profile \<noteq> Fin 100 \<and>
   generate_markdown_report [(''t.csv'', empty_profile)] = Inl ZeroDivisionError"
proof -
  have "generate_markdown_report [(''t.csv'', empty_profile)] = Inl ZeroDivisionError"
    by (simp add: generate_markdown_report_def py_sum_def score_empty_profile
        report_section_def)
       (simp add: empty_profile_def py_truediv_def)
  then show ?thesis
    by (simp add: analyze_empty_frame score_empty_profile)
       (simp add: empty_frame_def empty_profile_def empty_col_def)
qed

end
